theory Spec2Isabelle
  imports Complex_Main "HOL-Library.AList"
begin

section \<open>JavaScript strings and numbers used by the capture engine\<close>

text \<open>
  The engine (class \<^verbatim>\<open>SelfHostedMeetingBot\<close> and the module functions around it in
  \<^verbatim>\<open>services/meetingBot.ts\<close>) formats integers with \<^verbatim>\<open>Number.toString\<close>,
  pads them with \<^verbatim>\<open>String.padStart\<close> and builds paths with \<^verbatim>\<open>path.join\<close>.
  Integers are modelled as \<open>int\<close>/\<open>nat\<close>: every number formatted here is a
  difference of \<^verbatim>\<open>Date.now()\<close> readings, a \<^verbatim>\<open>Math.floor\<close> result or a
  counter, far below \<open>2^53\<close>.
\<close>

text \<open>
  \<^verbatim>\<open>Number.prototype.toString\<close> on an integer: its decimal digits, after a minus sign
  when it is negative.
\<close>

definition digitChar :: "int \<Rightarrow> char" where
  "digitChar d =
     (if d = 0 then CHR ''0'' else if d = 1 then CHR ''1'' else if d = 2 then CHR ''2''
      else if d = 3 then CHR ''3'' else if d = 4 then CHR ''4'' else if d = 5 then CHR ''5''
      else if d = 6 then CHR ''6'' else if d = 7 then CHR ''7'' else if d = 8 then CHR ''8''
      else CHR ''9'')"

function digits :: "int \<Rightarrow> string" where
  "digits n = (if n < 10 then [digitChar n] else digits (n div 10) @ [digitChar (n mod 10)])"
  by pat_completeness auto
termination
  by (relation "measure nat") auto

declare digits.simps [simp del]

definition toStringInt :: "int \<Rightarrow> string" where
  "toStringInt i = (if i < 0 then CHR ''-'' # digits (- i) else digits i)"

definition toStringNat :: "nat \<Rightarrow> string" where
  "toStringNat n = toStringInt (int n)"

definition padStart :: "nat \<Rightarrow> char \<Rightarrow> string \<Rightarrow> string" where
  "padStart n c s = replicate (n - length s) c @ s"

text \<open>JavaScript \<^verbatim>\<open>a % b\<close>: the remainder takes the sign of the dividend.\<close>

definition jsRem :: "int \<Rightarrow> int \<Rightarrow> int" where
  "jsRem a b = (if a < 0 then - ((- a) mod \<bar>b\<bar>) else a mod \<bar>b\<bar>)"

text \<open>\<^verbatim>\<open>path.join(a, b)\<close> for a directory and a plain file name.\<close>

definition pjoin :: "string \<Rightarrow> string \<Rightarrow> string" where
  "pjoin a b = a @ ''/'' @ b"

fun endsWith :: "string \<Rightarrow> string \<Rightarrow> bool" where
  "endsWith s suf = (length suf \<le> length s \<and> drop (length s - length suf) s = suf)"

fun startsWith :: "string \<Rightarrow> string \<Rightarrow> bool" where
  "startsWith s pre = (take (length pre) s = pre)"

fun includesStr :: "string \<Rightarrow> string \<Rightarrow> bool" where
  "includesStr [] sub = (sub = [])"
| "includesStr (c # cs) sub = (startsWith (c # cs) sub \<or> includesStr cs sub)"

section \<open>Timestamp formatting\<close>

text \<open>
  \<^verbatim>\<open>formatTimestamp(ms)\<close>: \<^verbatim>\<open>Math.floor\<close> of a quotient by a positive constant is
  the flooring \<open>div\<close> of HOL on \<open>int\<close>.
\<close>

definition formatTimestamp :: "int \<Rightarrow> string" where
  "formatTimestamp ms =
     (let seconds = ms div 1000;
          minutes = seconds div 60;
          hours = minutes div 60
      in padStart 2 (CHR ''0'') (toStringInt hours) @ '':'' @
         padStart 2 (CHR ''0'') (toStringInt (jsRem minutes 60)) @ '':'' @
         padStart 2 (CHR ''0'') (toStringInt (jsRem seconds 60)))"

section \<open>Data model\<close>

text \<open>
  \<^verbatim>\<open>TranscriptSegment\<close> and \<^verbatim>\<open>MeetingSession\<close> as the source declares them. Handles
  to objects outside the program are modelled by what the engine reads from them: the
  page and the CDP session by whether the field is non-null, the browser by open or
  closed, an interval timer by running or cleared, the audio child process by the
  argument list it was spawned with. The unused \<^verbatim>\<open>screencastFrames\<close> buffer is left
  out. The field \<^verbatim>\<open>id\<close> is named \<open>sid\<close>. Times are epoch milliseconds.
\<close>

datatype SessionStatus = Joining | InMeeting | Recording | Ended | Error

datatype Browser = BrowserOpen | BrowserClosed

datatype Timeout = Running | Cleared

record TranscriptSegment =
  speaker :: string
  "text" :: string
  timestamp :: int
  confidence :: rat

record MeetingSession =
  sid :: string
  meetingId :: string
  meetingUrl :: string
  platform :: string
  browser :: "Browser option"
  page :: bool
  cdpSession :: bool
  ffmpegProcess :: "string list option"
  status :: SessionStatus
  startTime :: int
  transcriptSegments :: "TranscriptSegment list"
  videoFilePath :: string
  audioFilePath :: string
  framesDir :: string
  screenshotPaths :: "string list"
  captionInterval :: "Timeout option"
  screencastInterval :: "Timeout option"
  isRecording :: bool
  frameCount :: nat

record PersistedSession =
  pMeetingId :: string
  pSessionId :: string
  pPlatform :: string
  pFramesDir :: string
  pStartTime :: int
  pFrameCount :: nat

text \<open>
  The host: process configuration, the files on disk (every path that exists, with the
  size \<^verbatim>\<open>statSync\<close> reports) and the log of the effects the engine has on processes,
  timers and browsers, in the order they happen.
\<close>

datatype Caller = AudioRecorder | ConvertFrames | Recovery

datatype Effect =
    SpawnFfmpeg Caller "string list"
  | QuitFfmpeg
  | ClearScreencast
  | ClearCaption
  | CloseBrowser

record Host =
  cwd :: string
  darwin :: bool
  AUDIO_DEVICE :: "string option"
  fs :: "(string \<times> int) list"
  effects :: "Effect list"

text \<open>
  The engine's module state: the registry \<^verbatim>\<open>activeSessions\<close> and the parsed content
  of \<^verbatim>\<open>active_sessions.json\<close> (a missing or unreadable file is the empty map, as
  \<^verbatim>\<open>loadPersistedSessions\<close> returns it). Writes below the recordings directory
  are taken to succeed.
\<close>

record World =
  host :: Host
  activeSessions :: "string \<rightharpoonup> MeetingSession"
  sessionsFile :: "string \<rightharpoonup> PersistedSession"

definition RECORDINGS_DIR :: "Host \<Rightarrow> string" where
  "RECORDINGS_DIR h = pjoin (cwd h) ''recordings''"

subsection \<open>File system and effect log\<close>

definition existsSync :: "Host \<Rightarrow> string \<Rightarrow> bool" where
  "existsSync h p = (map_of (fs h) p \<noteq> None)"

definition statSize :: "Host \<Rightarrow> string \<Rightarrow> int" where
  "statSize h p = (case map_of (fs h) p of Some n \<Rightarrow> n | None \<Rightarrow> 0)"

definition writeFile :: "string \<Rightarrow> int \<Rightarrow> Host \<Rightarrow> Host" where
  "writeFile p n h = h\<lparr>fs := AList.update p n (fs h)\<rparr>"

definition mkdirSync :: "string \<Rightarrow> Host \<Rightarrow> Host" where
  "mkdirSync p h = (if existsSync h p then h else writeFile p 0 h)"

definition readdirSync :: "Host \<Rightarrow> string \<Rightarrow> string list" where
  "readdirSync h d =
     map (\<lambda>(p, n). drop (length d + 1) p)
       (filter (\<lambda>(p, n). startsWith p (d @ ''/'') \<and> length d + 1 < length p \<and>
                           CHR ''/'' \<notin> set (drop (length d + 1) p)) (fs h))"

definition emit :: "Effect \<Rightarrow> Host \<Rightarrow> Host" where
  "emit e h = h\<lparr>effects := effects h @ [e]\<rparr>"

subsection \<open>Persistence\<close>

definition loadPersistedSessions :: "World \<Rightarrow> (string \<rightharpoonup> PersistedSession)" where
  "loadPersistedSessions w = sessionsFile w"

definition persistSession :: "string \<Rightarrow> PersistedSession \<Rightarrow> World \<Rightarrow> World" where
  "persistSession m p w = w\<lparr>sessionsFile := (loadPersistedSessions w)(m \<mapsto> p)\<rparr>"

definition removePersistedSession :: "string \<Rightarrow> World \<Rightarrow> World" where
  "removePersistedSession m w = w\<lparr>sessionsFile := (loadPersistedSessions w)(m := None)\<rparr>"

subsection \<open>Platform detection\<close>

definition detectPlatform :: "string \<Rightarrow> string" where
  "detectPlatform url =
     (if includesStr url ''zoom.us'' \<or> includesStr url ''zoom.com'' then ''zoom''
      else if includesStr url ''meet.google.com'' then ''google_meet''
      else if includesStr url ''teams.microsoft.com'' \<or> includesStr url ''teams.live.com'' then ''teams''
      else if includesStr url ''webex.com'' then ''webex''
      else ''unknown'')"

section \<open>Whisper transcription\<close>

text \<open>
  \<^verbatim>\<open>transcribeWithWhisper\<close>. The API answer is an input: no client (no API key), a
  call that throws, or the \<^verbatim>\<open>segments\<close> array of the response, each entry with
  optional \<^verbatim>\<open>text\<close>, \<^verbatim>\<open>start\<close> (seconds) and \<^verbatim>\<open>confidence\<close>. Seconds
  are rationals here; \<^verbatim>\<open>x || d\<close> takes \<open>d\<close> for a missing, zero or empty \<open>x\<close>.
\<close>

record WhisperSegment =
  wText :: "string option"
  wStart :: "rat option"
  wConfidence :: "rat option"

datatype WhisperApi = NoClient | ApiThrows | ApiSegments "WhisperSegment list"

definition isSpace :: "char \<Rightarrow> bool" where
  "isSpace c = (c \<in> set [CHR '' '', CHR 0x09, CHR 0x0A, CHR 0x0B, CHR 0x0C, CHR 0x0D])"

definition trim :: "string \<Rightarrow> string" where
  "trim s = rev (dropWhile isSpace (rev (dropWhile isSpace s)))"

definition whisperSegment :: "WhisperSegment \<Rightarrow> TranscriptSegment" where
  "whisperSegment seg =
     \<lparr>speaker = ''Speaker'',
      text = (case wText seg of Some t \<Rightarrow> trim t | None \<Rightarrow> []),
      timestamp = \<lfloor>(case wStart seg of Some x \<Rightarrow> x | None \<Rightarrow> 0) * 1000\<rfloor>,
      confidence = (case wConfidence seg of Some c \<Rightarrow> (if c = 0 then 0.9 else c) | None \<Rightarrow> 0.9)\<rparr>"

definition transcribeWithWhisper :: "WhisperApi \<Rightarrow> Host \<Rightarrow> string \<Rightarrow> TranscriptSegment list" where
  "transcribeWithWhisper api h audioFilePath' =
     (case api of
        NoClient \<Rightarrow> []
      | ApiThrows \<Rightarrow> []
      | ApiSegments segments \<Rightarrow>
          if \<not> existsSync h audioFilePath' then []
          else if statSize h audioFilePath' < 1000 then []
          else map whisperSegment segments)"

section \<open>Encoder\<close>

text \<open>
  \<^verbatim>\<open>convertFramesToVideo(framesDir, videoPath, fps, audioPath?)\<close>. What the FFmpeg child
  does is an input: the event that ends the wait (\<^verbatim>\<open>close\<close> with an exit code, an
  \<^verbatim>\<open>error\<close> event, or neither before the 300 s timer kills it) and the size of the
  file it has left at the output path, if any. The spawn is logged with its arguments.
\<close>

datatype FfmpegEnd = Close int | ErrorEvent string | NoExit

record FfmpegRun =
  ffEnd :: FfmpegEnd
  ffWritten :: "int option"

definition ffmpegOutput :: "FfmpegRun \<Rightarrow> string \<Rightarrow> Host \<Rightarrow> Host" where
  "ffmpegOutput run out h = (case ffWritten run of Some n \<Rightarrow> writeFile out n h | None \<Rightarrow> h)"

definition withAudioArgs :: "string \<Rightarrow> string \<Rightarrow> nat \<Rightarrow> string \<Rightarrow> string list" where
  "withAudioArgs framesDir' videoPath fps audioPath =
     [''-framerate'', toStringNat fps,
      ''-i'', pjoin framesDir' ''frame_%06d.png'',
      ''-i'', audioPath,
      ''-c:v'', ''libx264'',
      ''-pix_fmt'', ''yuv420p'',
      ''-c:a'', ''aac'',
      ''-b:a'', ''128k'',
      ''-crf'', ''23'',
      ''-preset'', ''fast'',
      ''-shortest'',
      ''-y'',
      videoPath]"

definition videoOnlyArgs :: "string \<Rightarrow> string \<Rightarrow> nat \<Rightarrow> string list" where
  "videoOnlyArgs framesDir' videoPath fps =
     [''-framerate'', toStringNat fps,
      ''-i'', pjoin framesDir' ''frame_%06d.png'',
      ''-c:v'', ''libx264'',
      ''-pix_fmt'', ''yuv420p'',
      ''-crf'', ''23'',
      ''-preset'', ''fast'',
      ''-y'',
      videoPath]"

definition convertArgs :: "Host \<Rightarrow> string \<Rightarrow> string \<Rightarrow> nat \<Rightarrow> string option \<Rightarrow> string list" where
  "convertArgs h framesDir' videoPath fps audioPath =
     (case audioPath of
        Some a \<Rightarrow>
          if a \<noteq> [] \<and> existsSync h a then withAudioArgs framesDir' videoPath fps a
          else videoOnlyArgs framesDir' videoPath fps
      | None \<Rightarrow> videoOnlyArgs framesDir' videoPath fps)"

definition convertFramesToVideo ::
  "string \<Rightarrow> string \<Rightarrow> nat \<Rightarrow> string option \<Rightarrow> FfmpegRun \<Rightarrow> Host \<Rightarrow> bool \<times> Host" where
  "convertFramesToVideo framesDir' videoPath fps audioPath run h =
     (let ffmpegArgs = convertArgs h framesDir' videoPath fps audioPath;
          h1 = ffmpegOutput run videoPath (emit (SpawnFfmpeg ConvertFrames ffmpegArgs) h)
      in case ffEnd run of
           Close code \<Rightarrow> (code = 0, h1)
         | ErrorEvent err \<Rightarrow> (False, h1)
         | NoExit \<Rightarrow> (False, h1))"

section \<open>Recorders\<close>

text \<open>
  \<^verbatim>\<open>startAudioRecording\<close>, \<^verbatim>\<open>stopAudioRecording\<close>, \<^verbatim>\<open>startRecording\<close>, the frame
  timer's callback and \<^verbatim>\<open>stopRecording\<close>, each on one session and the host. A
  callback runs to completion before the next operation starts.
\<close>

definition startAudioRecording :: "MeetingSession \<Rightarrow> Host \<Rightarrow> MeetingSession \<times> Host" where
  "startAudioRecording session h =
     (let audioDevice = (case AUDIO_DEVICE h of Some d \<Rightarrow> (if d = [] then ''0'' else d) | None \<Rightarrow> ''0'');
          ffmpegArgs =
            (if darwin h then
               [''-f'', ''avfoundation'', ''-i'', '':'' @ audioDevice, ''-acodec'', ''libmp3lame'',
                ''-ar'', ''16000'', ''-ac'', ''1'', ''-b:a'', ''64k'', ''-y'', audioFilePath session]
             else
               [''-f'', ''pulse'', ''-i'', ''default'', ''-acodec'', ''libmp3lame'',
                ''-ar'', ''16000'', ''-ac'', ''1'', ''-b:a'', ''64k'', ''-y'', audioFilePath session])
      in (session\<lparr>ffmpegProcess := Some ffmpegArgs\<rparr>, emit (SpawnFfmpeg AudioRecorder ffmpegArgs) h))"

definition stopAudioRecording :: "WhisperApi \<Rightarrow> MeetingSession \<Rightarrow> Host \<Rightarrow> MeetingSession \<times> Host" where
  "stopAudioRecording api session h =
     (case ffmpegProcess session of
        None \<Rightarrow> (session, h)
      | Some proc \<Rightarrow>
          (let h1 = emit QuitFfmpeg h;
               s1 = session\<lparr>ffmpegProcess := None\<rparr>
           in if existsSync h1 (audioFilePath s1) then
                (if statSize h1 (audioFilePath s1) > 5000 then
                   (let segments = transcribeWithWhisper api h1 (audioFilePath s1)
                    in if length segments > 0
                       then (s1\<lparr>transcriptSegments := transcriptSegments s1 @ segments\<rparr>, h1)
                       else (s1, h1))
                 else (s1, h1))
              else (s1, h1)))"

definition startRecording :: "MeetingSession \<Rightarrow> Host \<Rightarrow> MeetingSession \<times> Host" where
  "startRecording session h =
     (if \<not> page session \<or> \<not> cdpSession session then (session, h)
      else
        (let s1 = session\<lparr>isRecording := True, frameCount := 0, status := Recording\<rparr>;
             (s2, h2) = startAudioRecording s1 h
         in (s2\<lparr>screencastInterval := Some Running\<rparr>, h2)))"

definition framePath :: "string \<Rightarrow> nat \<Rightarrow> string" where
  "framePath framesDir' n =
     pjoin framesDir' (''frame_'' @ padStart 6 (CHR ''0'') (toStringNat n) @ ''.png'')"

text \<open>
  The callback of \<^verbatim>\<open>screencastInterval\<close>; \<open>shot\<close> is the size of the PNG the
  screenshot wrote, or \<open>None\<close> when \<^verbatim>\<open>page.screenshot\<close> throws.
\<close>

definition screencastTick :: "int option \<Rightarrow> MeetingSession \<Rightarrow> Host \<Rightarrow> MeetingSession \<times> Host" where
  "screencastTick shot session h =
     (if \<not> isRecording session \<or> \<not> page session then (session, h)
      else
        (case shot of
           Some n \<Rightarrow>
             (session\<lparr>frameCount := frameCount session + 1\<rparr>,
              writeFile (framePath (framesDir session) (frameCount session)) n h)
         | None \<Rightarrow> (session, h)))"

record StopEnv =
  whisper :: WhisperApi
  encoder :: FfmpegRun

definition stopRecording :: "StopEnv \<Rightarrow> MeetingSession \<Rightarrow> Host \<Rightarrow> MeetingSession \<times> Host" where
  "stopRecording env session h =
     (if \<not> isRecording session then (session, h)
      else
        (let s1 = session\<lparr>isRecording := False\<rparr>;
             (s2, h2) = (case screencastInterval s1 of
                           Some t \<Rightarrow> (s1\<lparr>screencastInterval := None\<rparr>, emit ClearScreencast h)
                         | None \<Rightarrow> (s1, h));
             (s3, h3) = stopAudioRecording (whisper env) s2 h2
         in if frameCount s3 > 0
            then (s3, snd (convertFramesToVideo (framesDir s3) (videoFilePath s3) 2
                             (Some (audioFilePath s3)) (encoder env) h3))
            else (s3, h3)))"

section \<open>Caption scraper\<close>

text \<open>
  The callback of \<^verbatim>\<open>captionInterval\<close>. The page evaluation is an input: \<open>None\<close>
  when it throws, else the candidate list it returns. Each candidate comes with the
  \<^verbatim>\<open>Date.now()\<close> reading taken if it is pushed.
\<close>

record Caption =
  cSpeaker :: string
  cText :: string

text \<open>
  The in-page mapping of one Google Meet caption element, from the text contents of its
  speaker and text children (\<open>None\<close> when the child or its text is missing); elements
  with empty text are filtered out. The other strategies set the speaker to
  \<^verbatim>\<open>'Speaker'\<close> (Teams' first strategy has the same default).
\<close>

definition gmeetCaption :: "string option \<Rightarrow> string option \<Rightarrow> Caption" where
  "gmeetCaption sp tx =
     \<lparr>cSpeaker = (case sp of Some x \<Rightarrow> (if trim x = [] then ''Speaker'' else trim x) | None \<Rightarrow> ''Speaker''),
      cText = (case tx of Some x \<Rightarrow> trim x | None \<Rightarrow> [])\<rparr>"

definition gmeetCaptions :: "(string option \<times> string option) list \<Rightarrow> Caption list" where
  "gmeetCaptions els = filter (\<lambda>c. cText c \<noteq> []) (map (\<lambda>(sp, tx). gmeetCaption sp tx) els)"

definition captionSegment :: "int \<Rightarrow> int \<Rightarrow> Caption \<Rightarrow> TranscriptSegment" where
  "captionSegment start now caption =
     \<lparr>speaker = cSpeaker caption, text = cText caption, timestamp = now - start, confidence = 0.95\<rparr>"

definition pushCaption :: "int \<Rightarrow> int \<times> Caption \<Rightarrow> TranscriptSegment list \<Rightarrow> TranscriptSegment list" where
  "pushCaption start nc segs =
     (if segs = [] \<or> text (last segs) \<noteq> cText (snd nc)
      then segs @ [captionSegment start (fst nc) (snd nc)]
      else segs)"

fun pushCaptions :: "int \<Rightarrow> (int \<times> Caption) list \<Rightarrow> TranscriptSegment list \<Rightarrow> TranscriptSegment list" where
  "pushCaptions start [] segs = segs"
| "pushCaptions start (nc # rest) segs = pushCaptions start rest (pushCaption start nc segs)"

definition captionTick :: "(int \<times> Caption) list option \<Rightarrow> MeetingSession \<Rightarrow> Host \<Rightarrow> MeetingSession \<times> Host" where
  "captionTick content session h =
     (if status session \<noteq> InMeeting \<and> status session \<noteq> Recording then
        (case captionInterval session of
           Some t \<Rightarrow> (session\<lparr>captionInterval := Some Cleared\<rparr>, emit ClearCaption h)
         | None \<Rightarrow> (session, h))
      else if page session then
        (case content of
           Some captions \<Rightarrow>
             (session\<lparr>transcriptSegments :=
                pushCaptions (startTime session) captions (transcriptSegments session)\<rparr>, h)
         | None \<Rightarrow> (session, h))
      else (session, h))"

definition startCaptionCapture :: "MeetingSession \<Rightarrow> MeetingSession" where
  "startCaptionCapture session = session\<lparr>captionInterval := Some Running\<rparr>"

section \<open>Engine operations\<close>

text \<open>
  The public operations of \<^verbatim>\<open>SelfHostedMeetingBot\<close> on the world. What the browser,
  the database client and the clock answer is an input of each call; a \<open>string option\<close>
  input is \<open>None\<close> when the call returns and \<open>Some msg\<close> when it throws an error with
  message \<open>msg\<close>. The bot name only feeds the platform join, whose outcome is an input.
\<close>

datatype 'a Attempt = Returns 'a | Throws string

record JoinEnv =
  uuid :: string
  launch :: "string option"
  platformJoin :: "bool Attempt"
  meetingUpdate :: "string option"
  joinNow :: int

record JoinData =
  jSessionId :: string
  jPlatform :: string
  jMessage :: string
  recordingStarted :: bool

datatype JoinResult = JoinOk JoinData | JoinFail string

text \<open>The \<^verbatim>\<open>catch\<close> block of \<^verbatim>\<open>joinMeeting\<close>.\<close>

definition joinCatch :: "string \<Rightarrow> string \<Rightarrow> World \<Rightarrow> JoinResult \<times> World" where
  "joinCatch msg meetingId' w =
     (let h1 = (case activeSessions w meetingId' of
                  Some session \<Rightarrow>
                    (case browser session of Some b \<Rightarrow> emit CloseBrowser (host w) | None \<Rightarrow> host w)
                | None \<Rightarrow> host w)
      in (JoinFail (if msg = [] then ''Failed to join meeting'' else msg),
          w\<lparr>host := h1, activeSessions := (activeSessions w)(meetingId' := None)\<rparr>))"

definition newSession :: "Host \<Rightarrow> string \<Rightarrow> string \<Rightarrow> string \<Rightarrow> string \<Rightarrow> int \<Rightarrow> MeetingSession" where
  "newSession h sessionId meetingId' meetingUrl' platform' now =
     \<lparr>sid = sessionId,
      meetingId = meetingId',
      meetingUrl = meetingUrl',
      platform = platform',
      browser = Some BrowserOpen,
      page = True,
      cdpSession = True,
      ffmpegProcess = None,
      status = Joining,
      startTime = now,
      transcriptSegments = [],
      videoFilePath = pjoin (RECORDINGS_DIR h) (sessionId @ ''_video.mp4''),
      audioFilePath = pjoin (RECORDINGS_DIR h) (sessionId @ ''_audio.mp3''),
      framesDir = pjoin (RECORDINGS_DIR h) (sessionId @ ''_frames''),
      screenshotPaths = [],
      captionInterval = None,
      screencastInterval = None,
      isRecording = False,
      frameCount = 0\<rparr>"

definition joinMeeting :: "JoinEnv \<Rightarrow> string \<Rightarrow> string \<Rightarrow> World \<Rightarrow> JoinResult \<times> World" where
  "joinMeeting env meetingId' meetingUrl' w =
     (let sessionId = uuid env;
          platform' = detectPlatform meetingUrl'
      in case launch env of
           Some msg \<Rightarrow> joinCatch msg meetingId' w
         | None \<Rightarrow>
             (let framesDir' = pjoin (RECORDINGS_DIR (host w)) (sessionId @ ''_frames'');
                  h1 = mkdirSync framesDir' (host w);
                  session = newSession h1 sessionId meetingId' meetingUrl' platform' (joinNow env);
                  w2 = w\<lparr>host := h1, activeSessions := (activeSessions w)(meetingId' \<mapsto> session)\<rparr>
              in case platformJoin env of
                   Throws msg \<Rightarrow> joinCatch msg meetingId' w2
                 | Returns joined \<Rightarrow>
                     (let joinSuccess =
                            (if platform' \<in> set [''google_meet'', ''zoom'', ''teams'', ''webex'']
                             then joined else True)
                      in if joinSuccess then
                           (let s1 = session\<lparr>status := InMeeting\<rparr>
                            in case meetingUpdate env of
                                 Some msg \<Rightarrow>
                                   joinCatch msg meetingId'
                                     (w2\<lparr>activeSessions := (activeSessions w2)(meetingId' \<mapsto> s1)\<rparr>)
                               | None \<Rightarrow>
                                   (let (s2, h2) = startRecording s1 h1;
                                        w3 = persistSession meetingId'
                                               \<lparr>pMeetingId = meetingId', pSessionId = sessionId,
                                                pPlatform = platform', pFramesDir = framesDir s2,
                                                pStartTime = startTime s2, pFrameCount = 0\<rparr>
                                               (w2\<lparr>host := h2\<rparr>);
                                        s3 = startCaptionCapture s2
                                    in (JoinOk \<lparr>jSessionId = sessionId, jPlatform = platform',
                                                jMessage = ''Successfully joined '' @ platform' @
                                                           '' meeting with recording enabled'',
                                                recordingStarted = isRecording s3\<rparr>,
                                        w3\<lparr>activeSessions := (activeSessions w3)(meetingId' \<mapsto> s3)\<rparr>)))
                         else joinCatch ''Failed to join meeting'' meetingId' w2)))"

text \<open>
  \<^verbatim>\<open>takeScreenshot\<close>: \<open>shot\<close> is the size of the PNG written, \<open>None\<close> when the
  screenshot throws; \<open>now\<close> is the \<^verbatim>\<open>Date.now()\<close> reading in the file name.
\<close>

definition screenshotOf ::
  "int option \<Rightarrow> int \<Rightarrow> MeetingSession \<Rightarrow> Host \<Rightarrow> string option \<times> MeetingSession \<times> Host" where
  "screenshotOf shot now session h =
     (if \<not> page session then (None, session, h)
      else
        (let screenshotPath =
               pjoin (RECORDINGS_DIR h) (sid session @ ''_screenshot_'' @ toStringInt now @ ''.png'')
         in case shot of
              Some n \<Rightarrow>
                (Some screenshotPath,
                 session\<lparr>screenshotPaths := screenshotPaths session @ [screenshotPath]\<rparr>,
                 writeFile screenshotPath n h)
            | None \<Rightarrow> (None, session, h)))"

definition takeScreenshot :: "int option \<Rightarrow> int \<Rightarrow> string \<Rightarrow> World \<Rightarrow> string option \<times> World" where
  "takeScreenshot shot now meetingId' w =
     (case activeSessions w meetingId' of
        None \<Rightarrow> (None, w)
      | Some session \<Rightarrow>
          (let (r, s1, h1) = screenshotOf shot now session (host w)
           in (r, w\<lparr>host := h1, activeSessions := (activeSessions w)(meetingId' \<mapsto> s1)\<rparr>)))"

definition toggleRecording :: "StopEnv \<Rightarrow> string \<Rightarrow> World \<Rightarrow> bool \<times> World" where
  "toggleRecording env meetingId' w =
     (case activeSessions w meetingId' of
        None \<Rightarrow> (False, w)
      | Some session \<Rightarrow>
          (let (s1, h1) = (if isRecording session then stopRecording env session (host w)
                           else startRecording session (host w))
           in (isRecording s1,
               w\<lparr>host := h1, activeSessions := (activeSessions w)(meetingId' \<mapsto> s1)\<rparr>)))"

subsection \<open>Leaving and recovery\<close>

record LeaveData =
  lDuration :: int
  lTranscript :: string
  lTranscriptSegments :: "TranscriptSegment list"
  lVideoPath :: "string option"
  lScreenshots :: "string list"
  lFrameCount :: nat

record RecoverData =
  rMeetingId :: string
  rDuration :: nat
  rVideoPath :: string
  rFrameCount :: nat
  rTranscript :: string
  rMessage :: string

datatype LeaveResult = LeaveOk LeaveData | Recovered RecoverData | LeaveFail string

record RecoverEnv =
  recFfmpeg :: FfmpegRun
  recMeetingUpdate :: "string option"

record LeaveEnv =
  finalShot :: "int option"
  shotNow :: int
  stopEnv :: StopEnv
  endNow :: int
  dbWrites :: "string option"
  recovery :: RecoverEnv

definition recoveryArgs :: "string \<Rightarrow> string \<Rightarrow> string list" where
  "recoveryArgs framesDir' videoPath =
     [''-framerate'', ''2'',
      ''-i'', pjoin framesDir' ''frame_%06d.png'',
      ''-c:v'', ''libx264'',
      ''-pix_fmt'', ''yuv420p'',
      ''-crf'', ''23'',
      ''-preset'', ''fast'',
      ''-y'',
      videoPath]"

definition recoveredTranscript :: string where
  "recoveredTranscript = ''Session recovered after server restart. No live transcript available.''"

text \<open>
  \<^verbatim>\<open>recoverAndProcessSession\<close> waits for the FFmpeg child without a timer: when the
  child neither closes nor errors the call never returns, which is the result \<open>None\<close>
  beside the world as the call has left it.
\<close>

definition recoverAndProcessSession ::
  "RecoverEnv \<Rightarrow> PersistedSession \<Rightarrow> World \<Rightarrow> LeaveResult option \<times> World" where
  "recoverAndProcessSession env persisted w =
     (let meetingId' = pMeetingId persisted;
          sessionId = pSessionId persisted;
          framesDir' = pFramesDir persisted
      in if \<not> existsSync (host w) framesDir' then
           (Some (LeaveFail ''Frames directory not found''), removePersistedSession meetingId' w)
         else
           (let frames = filter (\<lambda>f. endsWith f ''.png'') (readdirSync (host w) framesDir')
            in if length frames = 0 then
                 (Some (LeaveFail ''No frames found''), removePersistedSession meetingId' w)
               else
                 (let videoPath = pjoin (RECORDINGS_DIR (host w)) (sessionId @ ''_video.mp4'');
                      w1 = w\<lparr>host := ffmpegOutput (recFfmpeg env) videoPath
                                        (emit (SpawnFfmpeg Recovery (recoveryArgs framesDir' videoPath))
                                           (host w))\<rparr>
                  in case ffEnd (recFfmpeg env) of
                       NoExit \<Rightarrow> (None, w1)
                     | ErrorEvent err \<Rightarrow> (Some (LeaveFail err), w1)
                     | Close code \<Rightarrow>
                         if code \<noteq> 0 then (Some (LeaveFail ''FFmpeg failed''), w1)
                         else
                           (let duration = length frames div 2
                            in case recMeetingUpdate env of
                                 Some msg \<Rightarrow> (Some (LeaveFail msg), w1)
                               | None \<Rightarrow>
                                   (Some (Recovered
                                      \<lparr>rMeetingId = meetingId', rDuration = duration,
                                       rVideoPath = videoPath, rFrameCount = length frames,
                                       rTranscript = recoveredTranscript,
                                       rMessage = ''Session recovered and video created from captured frames.''\<rparr>),
                                    removePersistedSession meetingId' w1)))))"

definition transcriptLine :: "TranscriptSegment \<Rightarrow> string" where
  "transcriptLine seg =
     ''['' @ formatTimestamp (timestamp seg) @ ''] '' @ speaker seg @ '': '' @ text seg"

fun joinLines :: "string list \<Rightarrow> string" where
  "joinLines [] = []"
| "joinLines [l] = l"
| "joinLines (l # ls) = l @ [CHR 0x0A] @ joinLines ls"

text \<open>
  \<^verbatim>\<open>Array.prototype.sort\<close> with the comparator \<^verbatim>\<open>a.timestamp - b.timestamp\<close> is a
  stable ascending sort, as \<open>sort_key\<close> is.
\<close>

definition leaveMeeting :: "LeaveEnv \<Rightarrow> string \<Rightarrow> World \<Rightarrow> LeaveResult option \<times> World" where
  "leaveMeeting env meetingId' w =
     (case activeSessions w meetingId' of
        None \<Rightarrow>
          (case loadPersistedSessions w meetingId' of
             Some persisted \<Rightarrow> recoverAndProcessSession (recovery env) persisted w
           | None \<Rightarrow> (Some (LeaveFail ''No active session for this meeting''), w))
      | Some session \<Rightarrow>
          (let s0 = session\<lparr>status := Ended\<rparr>;
               (s1, h1) = (case captionInterval s0 of
                             Some t \<Rightarrow> (s0\<lparr>captionInterval := Some Cleared\<rparr>, emit ClearCaption (host w))
                           | None \<Rightarrow> (s0, host w));
               (shot, s2, h2) = screenshotOf (finalShot env) (shotNow env) s1 h1;
               (s3, h3) = stopRecording (stopEnv env) s2 h2;
               (s4, h4) = (case browser s3 of
                             Some b \<Rightarrow> (s3\<lparr>browser := Some BrowserClosed\<rparr>, emit CloseBrowser h3)
                           | None \<Rightarrow> (s3, h3));
               duration = (endNow env - startTime s4) div 1000;
               allTranscripts = sort_key timestamp (transcriptSegments s4);
               transcriptText =
                 (if length allTranscripts > 0 then joinLines (map transcriptLine allTranscripts)
                  else ''No transcript captured. Enable live captions in the meeting for best results.'');
               w1 = removePersistedSession meetingId'
                      (w\<lparr>host := h4, activeSessions := (activeSessions w)(meetingId' := None)\<rparr>)
           in case dbWrites env of
                Some msg \<Rightarrow> (Some (LeaveFail msg), w1)
              | None \<Rightarrow>
                  (Some (LeaveOk
                     \<lparr>lDuration = duration, lTranscript = transcriptText,
                      lTranscriptSegments = allTranscripts,
                      lVideoPath = (if existsSync h4 (videoFilePath s4) then Some (videoFilePath s4) else None),
                      lScreenshots = screenshotPaths s4, lFrameCount = frameCount s4\<rparr>),
                   w1)))"

section \<open>Runs of the engine\<close>

text \<open>
  One event is a call of a public operation, a firing of a session's timer (only a
  running timer fires) or the audio child of a session writing its file. A timer of a
  session whose registry entry has been replaced is not followed.
\<close>

datatype Event =
    Join string string JoinEnv
  | Leave string LeaveEnv
  | Toggle string StopEnv
  | Screenshot string "int option" int
  | FrameTimer string "int option"
  | CaptionTimer string "(int \<times> Caption) list option"
  | AudioData string int

definition onSession ::
  "string \<Rightarrow> (MeetingSession \<Rightarrow> bool) \<Rightarrow> (MeetingSession \<Rightarrow> Host \<Rightarrow> MeetingSession \<times> Host) \<Rightarrow> World \<Rightarrow> World" where
  "onSession m guard f w =
     (case activeSessions w m of
        None \<Rightarrow> w
      | Some session \<Rightarrow>
          if guard session then
            (let (s1, h1) = f session (host w)
             in w\<lparr>host := h1, activeSessions := (activeSessions w)(m \<mapsto> s1)\<rparr>)
          else w)"

fun step :: "Event \<Rightarrow> World \<Rightarrow> World" where
  "step (Join m url env) w = snd (joinMeeting env m url w)"
| "step (Leave m env) w = snd (leaveMeeting env m w)"
| "step (Toggle m env) w = snd (toggleRecording env m w)"
| "step (Screenshot m shot now) w = snd (takeScreenshot shot now m w)"
| "step (FrameTimer m shot) w =
     onSession m (\<lambda>s. screencastInterval s = Some Running) (screencastTick shot) w"
| "step (CaptionTimer m content) w =
     onSession m (\<lambda>s. captionInterval s = Some Running) (captionTick content) w"
| "step (AudioData m n) w =
     onSession m (\<lambda>s. ffmpegProcess s \<noteq> None) (\<lambda>s h. (s, writeFile (audioFilePath s) n h)) w"

fun run :: "Event list \<Rightarrow> World \<Rightarrow> World" where
  "run [] w = w"
| "run (e # es) w = run es (step e w)"

definition startup :: "Host \<Rightarrow> (string \<rightharpoonup> PersistedSession) \<Rightarrow> World" where
  "startup h file = \<lparr>host = h, activeSessions = Map.empty, sessionsFile = file\<rparr>"

section \<open>Invariants and observations\<close>

text \<open>
  \<open>grows h h'\<close>: every path that exists on \<open>h\<close> exists on \<open>h'\<close>. The engine never
  deletes a file.
\<close>

definition grows :: "Host \<Rightarrow> Host \<Rightarrow> bool" where
  "grows h h' = (\<forall>q. existsSync h q \<longrightarrow> existsSync h' q)"



text \<open>
  The events that start a recording of meeting \<open>m\<close>: a join for \<open>m\<close>, and a toggle
  of \<open>m\<close> while its session is not recording. Both go through \<^verbatim>\<open>startRecording\<close>.
\<close>

definition restarts :: "string \<Rightarrow> World \<Rightarrow> Event \<Rightarrow> bool" where
  "restarts m w e =
     (case e of
        Join m' url env \<Rightarrow> m' = m
      | Toggle m' env \<Rightarrow>
          m' = m \<and> (case activeSessions w m of Some s \<Rightarrow> \<not> isRecording s | None \<Rightarrow> False)
      | _ \<Rightarrow> False)"

text \<open>
  The encoder runs in the effect log: the FFmpeg children that turn frames into an MP4,
  spawned by \<^verbatim>\<open>convertFramesToVideo\<close> or by the recovery path.
\<close>

fun isEncoderSpawn :: "Effect \<Rightarrow> bool" where
  "isEncoderSpawn (SpawnFfmpeg ConvertFrames args) = True"
| "isEncoderSpawn (SpawnFfmpeg Recovery args) = True"
| "isEncoderSpawn e = False"

definition encoderRuns :: "Host \<Rightarrow> Effect list" where
  "encoderRuns h = filter isEncoderSpawn (effects h)"

text \<open>The events that reach \<^verbatim>\<open>stopRecording\<close>: Leave and ToggleRecording.\<close>

fun callsStop :: "Event \<Rightarrow> bool" where
  "callsStop (Leave m env) = True"
| "callsStop (Toggle m env) = True"
| "callsStop e = False"





section \<open>Example inputs\<close>

definition exHost :: "(string \<times> int) list \<Rightarrow> Host" where
  "exHost files = \<lparr>cwd = ''/srv'', darwin = False, AUDIO_DEVICE = None, fs = files, effects = []\<rparr>"

definition exUrl :: string where
  "exUrl = ''https://meet.google.com/abc-defg-hij''"

definition exJoin :: "string \<Rightarrow> JoinEnv" where
  "exJoin u = \<lparr>uuid = u, launch = None, platformJoin = Returns True, meetingUpdate = None,
               joinNow = 1000\<rparr>"

definition exStop :: "WhisperApi \<Rightarrow> StopEnv" where
  "exStop api = \<lparr>whisper = api, encoder = \<lparr>ffEnd = Close 0, ffWritten = Some 9000\<rparr>\<rparr>"

definition exRecover :: "int \<Rightarrow> RecoverEnv" where
  "exRecover code =
     \<lparr>recFfmpeg = \<lparr>ffEnd = Close code, ffWritten = (if code = 0 then Some 9000 else None)\<rparr>,
      recMeetingUpdate = None\<rparr>"

definition exLeave :: "int \<Rightarrow> LeaveEnv" where
  "exLeave code = \<lparr>finalShot = Some 20, shotNow = 6000, stopEnv = exStop NoClient, endNow = 7000,
                    dbWrites = None, recovery = exRecover code\<rparr>"

definition exWorld :: "Event list \<Rightarrow> World" where
  "exWorld es = run es (startup (exHost []) Map.empty)"




definition exCaption :: "int \<Rightarrow> string \<Rightarrow> int \<times> Caption" where
  "exCaption now t = (now, \<lparr>cSpeaker = ''A'', cText = t\<rparr>)"

section \<open>Properties\<close>

subsection \<open>Files are only added\<close>

lemma grows_refl [simp]: "grows h h"
  by (simp add: grows_def)

lemma grows_trans: "grows h1 h2 \<Longrightarrow> grows h2 h3 \<Longrightarrow> grows h1 h3"
  by (simp add: grows_def)

lemma existsSync_writeFile [simp]: "existsSync (writeFile p n h) q \<longleftrightarrow> q = p \<or> existsSync h q"
  by (simp add: existsSync_def writeFile_def update_conv')

lemma existsSync_emit [simp]: "existsSync (emit e h) q = existsSync h q"
  by (simp add: existsSync_def emit_def)

lemma statSize_emit [simp]: "statSize (emit e h) q = statSize h q"
  by (simp add: statSize_def emit_def)

lemma grows_writeFile [simp]: "grows h (writeFile p n h)"
  by (simp add: grows_def)

lemma grows_emit [simp]: "grows h (emit e h)"
  by (simp add: grows_def)


lemma grows_ffmpegOutput [simp]: "grows h (ffmpegOutput r p h)"
  by (simp add: ffmpegOutput_def split: option.splits)

lemma grows_emit_right [simp]: "grows h (emit e h') = grows h h'"
  by (simp add: grows_def)

lemma grows_writeFile_right [simp]: "grows h h' \<Longrightarrow> grows h (writeFile p n h')"
  by (simp add: grows_def)

lemma grows_ffmpegOutput_right [simp]: "grows h h' \<Longrightarrow> grows h (ffmpegOutput r p h')"
  by (simp add: ffmpegOutput_def split: option.splits)

lemma grows_mkdirSync_right [simp]: "grows h h' \<Longrightarrow> grows h (mkdirSync p h')"
  by (simp add: mkdirSync_def)


lemma grows_convert: "grows h (snd (convertFramesToVideo fd vp fps ap r h))"
  by (auto simp: convertFramesToVideo_def Let_def grows_def ffmpegOutput_def
      split: FfmpegEnd.splits option.splits)

lemma grows_emit_left [simp]: "grows (emit e h) h' = grows h h'"
  by (simp add: grows_def)

lemma grows_convert_trans [simp]: "grows h x \<Longrightarrow> grows h (snd (convertFramesToVideo fd vp fps ap r x))"
  using grows_convert grows_trans by blast

lemma startAudioRecording_host:
  "startAudioRecording s h = (s', h') \<Longrightarrow>
     grows h h' \<and> frameCount s' = frameCount s \<and> framesDir s' = framesDir s \<and>
     isRecording s' = isRecording s \<and> transcriptSegments s' = transcriptSegments s"
  by (auto simp: startAudioRecording_def Let_def)

lemma stopAudioRecording_keeps:
  "stopAudioRecording api s h = (s', h') \<Longrightarrow>
     grows h h' \<and> frameCount s' = frameCount s \<and> framesDir s' = framesDir s \<and>
     isRecording s' = isRecording s \<and> videoFilePath s' = videoFilePath s \<and>
     audioFilePath s' = audioFilePath s \<and> ffmpegProcess s' = None \<and>
     screencastInterval s' = screencastInterval s"
  by (auto simp: stopAudioRecording_def Let_def split: option.splits if_splits)


lemma stopRecording_keeps:
  "stopRecording env s h = (s', h') \<Longrightarrow>
     grows h h' \<and> frameCount s' = frameCount s \<and> framesDir s' = framesDir s"
  by (auto simp: stopRecording_def Let_def split: if_splits prod.splits option.splits
      dest!: stopAudioRecording_keeps)



lemma screenshotOf_keeps:
  "screenshotOf shot now s h = (r, s', h') \<Longrightarrow>
     grows h h' \<and> framesDir s' = framesDir s \<and> frameCount s' = frameCount s \<and>
     isRecording s' = isRecording s \<and> transcriptSegments s' = transcriptSegments s"
  by (auto simp: screenshotOf_def Let_def split: if_splits option.splits)


lemma removePersisted_simps [simp]:
  "sessionsFile (removePersistedSession m w) = (sessionsFile w)(m := None)"
  "host (removePersistedSession m w) = host w"
  "activeSessions (removePersistedSession m w) = activeSessions w"
  by (simp_all add: removePersistedSession_def loadPersistedSessions_def)

lemma persistSession_simps [simp]:
  "sessionsFile (persistSession m p w) = (sessionsFile w)(m \<mapsto> p)"
  "host (persistSession m p w) = host w"
  "activeSessions (persistSession m p w) = activeSessions w"
  by (simp_all add: persistSession_def loadPersistedSessions_def)


lemma recover_registry: "activeSessions (snd (recoverAndProcessSession env p w)) = activeSessions w"
  by (auto simp: recoverAndProcessSession_def Let_def split: FfmpegEnd.splits option.splits)


lemma leave_registry: "activeSessions (snd (leaveMeeting env m w)) = (activeSessions w)(m := None)"
  by (auto simp: leaveMeeting_def Let_def recover_registry split: prod.splits option.splits)


lemma recover_not_LeaveOk: "fst (recoverAndProcessSession env p w) \<noteq> Some (LeaveOk r)"
  by (auto simp: recoverAndProcessSession_def Let_def split: FfmpegEnd.splits option.splits)

lemma leave_sorted:
  "fst (leaveMeeting env m w) = Some (LeaveOk r) \<Longrightarrow> sorted (map timestamp (lTranscriptSegments r))"
  by (auto simp: leaveMeeting_def Let_def recover_not_LeaveOk split: prod.splits option.splits)

lemma joinCatch_simps [simp]:
  "grows h (host (snd (joinCatch msg m w))) = grows h (host w)"
  "activeSessions (snd (joinCatch msg m w)) = (activeSessions w)(m := None)"
  "sessionsFile (snd (joinCatch msg m w)) = sessionsFile w"
  "fst (joinCatch msg m w) = JoinFail (if msg = [] then ''Failed to join meeting'' else msg)"
  by (auto simp: joinCatch_def Let_def split: option.splits)


lemma join_registry_other:
  "m' \<noteq> m \<Longrightarrow> activeSessions (snd (joinMeeting env m url w)) m' = activeSessions w m'"
  by (auto simp: joinMeeting_def Let_def split: prod.splits option.splits Attempt.splits)

lemma newSession_page [simp]:
  "page (newSession h sidd m url pl now)" "cdpSession (newSession h sidd m url pl now)"
  "sid (newSession h sidd m url pl now) = sidd"
  "frameCount (newSession h sidd m url pl now) = 0"
  by (simp_all add: newSession_def)













subsection \<open>Frame files\<close>




subsection \<open>Encoder command shape\<close>


lemma args_differ: "withAudioArgs fd vp fps a \<noteq> videoOnlyArgs fd vp fps"
  by (simp add: withAudioArgs_def videoOnlyArgs_def)


lemma stopAudioRecording_fields [simp]:
  "audioFilePath (fst (stopAudioRecording api s h)) = audioFilePath s"
  "framesDir (fst (stopAudioRecording api s h)) = framesDir s"
  "videoFilePath (fst (stopAudioRecording api s h)) = videoFilePath s"
  "frameCount (fst (stopAudioRecording api s h)) = frameCount s"
  "isRecording (fst (stopAudioRecording api s h)) = isRecording s"
  "screencastInterval (fst (stopAudioRecording api s h)) = screencastInterval s"
  "ffmpegProcess (fst (stopAudioRecording api s h)) = None"
  by (simp_all add: stopAudioRecording_def Let_def split: option.splits)

lemma stopAudioRecording_host [simp]:
  "snd (stopAudioRecording api s h) =
     (case ffmpegProcess s of None \<Rightarrow> h | Some p \<Rightarrow> emit QuitFfmpeg h)"
  by (simp add: stopAudioRecording_def Let_def split: option.splits)

lemma convertArgs_emit [simp]: "convertArgs (emit e h) fd vp fps ap = convertArgs h fd vp fps ap"
  by (simp add: convertArgs_def split: option.splits)

lemma effects_emit [simp]: "effects (emit e h) = effects h @ [e]"
  by (simp add: emit_def)

lemma effects_writeFile [simp]: "effects (writeFile p n h) = effects h"
  by (simp add: writeFile_def)

lemma effects_mkdirSync [simp]: "effects (mkdirSync p h) = effects h"
  by (simp add: mkdirSync_def)

lemma effects_ffmpegOutput [simp]: "effects (ffmpegOutput r p h) = effects h"
  by (simp add: ffmpegOutput_def split: option.splits)

lemma effects_convert:
  "effects (snd (convertFramesToVideo fd vp fps ap r h)) =
     effects h @ [SpawnFfmpeg ConvertFrames (convertArgs h fd vp fps ap)]"
  by (simp add: convertFramesToVideo_def Let_def split: FfmpegEnd.splits)

lemma stopRecording_effects:
  "isRecording s \<Longrightarrow>
   effects (snd (stopRecording env s h)) =
     effects h @
     (if screencastInterval s \<noteq> None then [ClearScreencast] else []) @
     (if ffmpegProcess s \<noteq> None then [QuitFfmpeg] else []) @
     (if 0 < frameCount s
      then [SpawnFfmpeg ConvertFrames
              (convertArgs h (framesDir s) (videoFilePath s) 2 (Some (audioFilePath s)))]
      else [])"
  by (simp add: stopRecording_def Let_def case_prod_beta effects_convert split: option.splits)

lemma stopRecording_stopped:
  "isRecording s \<Longrightarrow>
   screencastInterval (fst (stopRecording env s h)) = None \<and>
   ffmpegProcess (fst (stopRecording env s h)) = None \<and>
   \<not> isRecording (fst (stopRecording env s h))"
  by (simp add: stopRecording_def Let_def case_prod_beta split: option.splits)

text \<open>
  C5 as stated: the with-audio command is used if and only if the audio file exists and
  is larger than 5 KB. It fails: the encoder looks at the existence of the file only. With
  an audio file of 100 bytes on disk the spawned command is the with-audio one.
\<close>

theorem encoder_audio_size_counterexample:
  "existsSync (exHost [(''/srv/recordings/S5_audio.mp3'', 100)]) ''/srv/recordings/S5_audio.mp3'' \<and>
   statSize (exHost [(''/srv/recordings/S5_audio.mp3'', 100)]) ''/srv/recordings/S5_audio.mp3'' = 100 \<and>
   effects (snd (convertFramesToVideo ''/srv/recordings/S5_frames'' ''/srv/recordings/S5_video.mp4'' 2
       (Some ''/srv/recordings/S5_audio.mp3'') \<lparr>ffEnd = Close 0, ffWritten = Some 9000\<rparr>
       (exHost [(''/srv/recordings/S5_audio.mp3'', 100)]))) =
     [SpawnFfmpeg ConvertFrames
       [''-framerate'', ''2'', ''-i'', ''/srv/recordings/S5_frames/frame_%06d.png'',
        ''-i'', ''/srv/recordings/S5_audio.mp3'', ''-c:v'', ''libx264'', ''-pix_fmt'', ''yuv420p'',
        ''-c:a'', ''aac'', ''-b:a'', ''128k'', ''-crf'', ''23'', ''-preset'', ''fast'',
        ''-shortest'', ''-y'', ''/srv/recordings/S5_video.mp4'']]"
  by code_simp

text \<open>
  C5, amended: for every encoding invocation, the encoder uses the with-audio FFmpeg
  command (audio input, aac codec, \<^verbatim>\<open>-shortest\<close>) if and only if an audio path is
  given, is not empty and the file exists, whatever its size; otherwise it uses the
  video-only command. \<^verbatim>\<open>stopRecording\<close> passes the session's audio path, so the
  command it spawns for a recording session with at least one frame is decided by the
  existence of the session's audio file.
\<close>

theorem encoder_shape_by_existence:
  "effects (snd (convertFramesToVideo fd vp fps (Some a) r h)) =
     effects h @ [SpawnFfmpeg ConvertFrames (convertArgs h fd vp fps (Some a))] \<and>
   (convertArgs h fd vp fps (Some a) = withAudioArgs fd vp fps a \<longleftrightarrow> a \<noteq> [] \<and> existsSync h a) \<and>
   (convertArgs h fd vp fps (Some a) = videoOnlyArgs fd vp fps \<longleftrightarrow> \<not> (a \<noteq> [] \<and> existsSync h a)) \<and>
   convertArgs h fd vp fps None = videoOnlyArgs fd vp fps \<and>
   (isRecording s \<and> 0 < frameCount s \<longrightarrow>
      last (effects (snd (stopRecording env s h))) =
        SpawnFfmpeg ConvertFrames
          (if audioFilePath s \<noteq> [] \<and> existsSync h (audioFilePath s)
           then withAudioArgs (framesDir s) (videoFilePath s) 2 (audioFilePath s)
           else videoOnlyArgs (framesDir s) (videoFilePath s) 2))"
proof -
  have shape: "convertArgs h fd vp fps (Some a) =
      (if a \<noteq> [] \<and> existsSync h a then withAudioArgs fd vp fps a else videoOnlyArgs fd vp fps)"
    for h fd vp fps a
    by (simp add: convertArgs_def)
  have none: "convertArgs h fd vp fps None = videoOnlyArgs fd vp fps"
    by (simp add: convertArgs_def)
  show ?thesis
    using args_differ [of fd vp fps] args_differ [of fd vp fps, symmetric]
    by (simp add: effects_convert stopRecording_effects shape none)
qed

theorem encoder_shape_by_existence_witness:
  "isRecording (the (activeSessions (exWorld [Join ''M5'' exUrl (exJoin ''S5''),
       FrameTimer ''M5'' (Some 10), AudioData ''M5'' 100]) ''M5'')) \<and>
   0 < frameCount (the (activeSessions (exWorld [Join ''M5'' exUrl (exJoin ''S5''),
       FrameTimer ''M5'' (Some 10), AudioData ''M5'' 100]) ''M5'')) \<and>
   statSize (host (exWorld [Join ''M5'' exUrl (exJoin ''S5''),
       FrameTimer ''M5'' (Some 10), AudioData ''M5'' 100])) ''/srv/recordings/S5_audio.mp3'' = 100 \<and>
   last (effects (snd (stopRecording (exStop NoClient)
       (the (activeSessions (exWorld [Join ''M5'' exUrl (exJoin ''S5''),
          FrameTimer ''M5'' (Some 10), AudioData ''M5'' 100]) ''M5''))
       (host (exWorld [Join ''M5'' exUrl (exJoin ''S5''),
          FrameTimer ''M5'' (Some 10), AudioData ''M5'' 100]))))) =
     SpawnFfmpeg ConvertFrames
       (withAudioArgs ''/srv/recordings/S5_frames'' ''/srv/recordings/S5_video.mp4'' 2
          ''/srv/recordings/S5_audio.mp3'')"
proof -
  let ?w = "exWorld [Join ''M5'' exUrl (exJoin ''S5''), FrameTimer ''M5'' (Some 10), AudioData ''M5'' 100]"
  let ?s = "the (activeSessions ?w ''M5'')"
  have rec: "isRecording ?s \<and> 0 < frameCount ?s"
    by code_simp
  have paths: "audioFilePath ?s = ''/srv/recordings/S5_audio.mp3'' \<and>
               framesDir ?s = ''/srv/recordings/S5_frames'' \<and>
               videoFilePath ?s = ''/srv/recordings/S5_video.mp4''"
    by code_simp
  have ex: "existsSync (host ?w) ''/srv/recordings/S5_audio.mp3'' \<and>
            statSize (host ?w) ''/srv/recordings/S5_audio.mp3'' = 100"
    by code_simp
  from encoder_shape_by_existence [where s = ?s and env = "exStop NoClient" and h = "host ?w"] rec
  have "last (effects (snd (stopRecording (exStop NoClient) ?s (host ?w)))) =
        SpawnFfmpeg ConvertFrames
          (if audioFilePath ?s \<noteq> [] \<and> existsSync (host ?w) (audioFilePath ?s)
           then withAudioArgs (framesDir ?s) (videoFilePath ?s) 2 (audioFilePath ?s)
           else videoOnlyArgs (framesDir ?s) (videoFilePath ?s) 2)"
    by blast
  then show ?thesis
    using rec paths ex by simp
qed

subsection \<open>Recovery of a persisted session\<close>






subsection \<open>Registry entries of other meetings\<close>

lemma onSession_registry_other:
  "m' \<noteq> m \<Longrightarrow> activeSessions (onSession m g f w) m' = activeSessions w m'"
  by (simp add: onSession_def Let_def case_prod_beta split: option.splits)

lemma toggle_registry_other:
  "m' \<noteq> m \<Longrightarrow> activeSessions (snd (toggleRecording env m w)) m' = activeSessions w m'"
  by (simp add: toggleRecording_def Let_def case_prod_beta split: option.splits)

lemma screenshot_registry_other:
  "m' \<noteq> m \<Longrightarrow> activeSessions (snd (takeScreenshot shot now m w)) m' = activeSessions w m'"
  by (simp add: takeScreenshot_def Let_def case_prod_beta split: option.splits)

lemma onSession_self:
  "activeSessions w m = Some s \<Longrightarrow>
   activeSessions (onSession m g f w) m = Some (if g s then fst (f s (host w)) else s)"
  by (simp add: onSession_def Let_def case_prod_beta)

lemma toggle_self:
  "activeSessions w m = Some s \<Longrightarrow>
   activeSessions (snd (toggleRecording env m w)) m =
     Some (fst (if isRecording s then stopRecording env s (host w) else startRecording s (host w)))"
  by (simp add: toggleRecording_def Let_def case_prod_beta)

lemma screenshot_self:
  "activeSessions w m = Some s \<Longrightarrow>
   activeSessions (snd (takeScreenshot shot now m w)) m = Some (fst (snd (screenshotOf shot now s (host w))))"
  by (simp add: takeScreenshot_def Let_def case_prod_beta)

lemma frameCount_stopRecording [simp]:
  "frameCount (fst (stopRecording env s h)) = frameCount s"
  using stopRecording_keeps [of env s h] by (cases "stopRecording env s h") simp

lemma frameCount_screenshotOf [simp]:
  "frameCount (fst (snd (screenshotOf shot now s h))) = frameCount s"
  by (simp add: screenshotOf_def Let_def split: option.splits)

lemma frameCount_captionTick [simp]:
  "frameCount (fst (captionTick content s h)) = frameCount s"
  by (simp add: captionTick_def split: option.splits)

lemma frameCount_screencastTick:
  "frameCount s \<le> frameCount (fst (screencastTick shot s h))"
  by (simp add: screencastTick_def split: option.splits)

lemma frameCount_startRecording:
  "page s \<Longrightarrow> cdpSession s \<Longrightarrow> frameCount (fst (startRecording s h)) = 0"
  by (simp add: startRecording_def startAudioRecording_def Let_def)

subsection \<open>Captions\<close>



lemma pushCaption_sorted:
  assumes "sorted (map timestamp segs)" and "\<forall>x\<in>set segs. timestamp x \<le> n - start"
  shows "sorted (map timestamp (pushCaption start (n, c) segs)) \<and>
         (\<forall>x\<in>set (pushCaption start (n, c) segs). timestamp x \<le> n - start)"
  using assms by (auto simp: pushCaption_def captionSegment_def sorted_append)

lemma pushCaptions_sorted:
  assumes "sorted (map timestamp segs)" and "sorted (map fst cs)"
    and "\<forall>x\<in>set segs. \<forall>n\<in>set (map fst cs). timestamp x \<le> n - start"
  shows "sorted (map timestamp (pushCaptions start cs segs))"
  using assms
proof (induction cs arbitrary: segs)
  case Nil
  then show ?case by simp
next
  case (Cons nc cs)
  obtain n c where nc: "nc = (n, c)" by (cases nc)
  have below: "\<forall>x\<in>set segs. timestamp x \<le> n - start"
    using Cons.prems(3) nc by simp
  have later: "\<forall>n'\<in>set (map fst cs). n \<le> n'"
    using Cons.prems(2) nc by simp
  have step: "sorted (map timestamp (pushCaption start (n, c) segs))"
    and bound: "\<forall>x\<in>set (pushCaption start (n, c) segs). timestamp x \<le> n - start"
    using pushCaption_sorted [OF Cons.prems(1) below] by simp_all
  have "\<forall>x\<in>set (pushCaption start (n, c) segs). \<forall>n'\<in>set (map fst cs). timestamp x \<le> n' - start"
    using bound later by fastforce
  moreover have "sorted (map fst cs)"
    using Cons.prems(2) by simp
  ultimately show ?case
    using Cons.IH [OF step] nc by simp
qed

lemma stopRecording_transcript:
  "stopRecording env s h = (s', h') \<Longrightarrow>
   set (transcriptSegments s) \<subseteq> set (transcriptSegments s')"
  by (auto simp: stopRecording_def stopAudioRecording_def Let_def case_prod_beta
      split: option.splits if_splits)

lemma leave_segments:
  assumes "activeSessions w m = Some s" and "fst (leaveMeeting env m w) = Some (LeaveOk r)"
  shows "set (transcriptSegments s) \<subseteq> set (lTranscriptSegments r)"
  using assms
  by (auto simp: leaveMeeting_def Let_def split: prod.splits option.splits
      dest!: stopRecording_transcript screenshotOf_keeps)



lemma startRecording_transcript [simp]:
  "transcriptSegments (fst (startRecording s h)) = transcriptSegments s"
  by (simp add: startRecording_def startAudioRecording_def Let_def)

lemma screenshotOf_transcript [simp]:
  "transcriptSegments (fst (snd (screenshotOf shot now s h))) = transcriptSegments s"
  by (simp add: screenshotOf_def Let_def split: option.splits)

lemma screencastTick_transcript [simp]:
  "transcriptSegments (fst (screencastTick shot s h)) = transcriptSegments s"
  by (simp add: screencastTick_def split: option.splits)








text \<open>
  C6 as stated: the stored segment list is nondecreasing in timestamp in append order at
  every point. It fails when recording stops: the Whisper segments are appended with
  their offsets into the audio. After a caption stored at 10000 ms, a stop whose
  transcription returns a segment starting at 2.5 s leaves the stored timestamps
  10000, 2500.
\<close>

theorem transcript_order_counterexample:
  "map_option (map timestamp \<circ> transcriptSegments)
     (activeSessions
        (exWorld [Join ''M6'' exUrl (exJoin ''S6''),
                  CaptionTimer ''M6'' (Some [exCaption 11000 ''hello'']),
                  AudioData ''M6'' 6000,
                  Toggle ''M6'' (exStop (ApiSegments
                    [\<lparr>wText = Some '' hi '', wStart = Some 2.5, wConfidence = None\<rparr>]))])
        ''M6'') =
   Some [10000, 2500]"
  by code_simp

text \<open>
  C6, amended: a scraper tick keeps the stored segment list nondecreasing in timestamp
  when its clock readings are nondecreasing and not earlier than the timestamps already
  stored; the Whisper segments appended when recording stops are outside this order;
  the segment list that Leave returns holds every segment stored before the call and is
  sorted ascending by timestamp.
\<close>

theorem transcript_sorted_on_leave:
  "(sorted (map timestamp segs) \<and> sorted (map fst cs) \<and>
    (\<forall>x\<in>set segs. \<forall>n\<in>set (map fst cs). timestamp x \<le> n - start) \<longrightarrow>
      sorted (map timestamp (pushCaptions start cs segs))) \<and>
   (activeSessions w m = Some s \<and> fst (leaveMeeting env m w) = Some (LeaveOk r) \<longrightarrow>
      sorted (map timestamp (lTranscriptSegments r)) \<and>
      set (transcriptSegments s) \<subseteq> set (lTranscriptSegments r))"
  using pushCaptions_sorted leave_sorted leave_segments by blast

theorem transcript_sorted_on_leave_witness:
  "sorted (map timestamp [\<lparr>speaker = ''A'', text = ''hello'', timestamp = 2000, confidence = 0.95\<rparr>]) \<and>
   sorted (map fst [exCaption 4000 ''world'', exCaption 6000 ''hello'']) \<and>
   sorted (map timestamp (pushCaptions 1000 [exCaption 4000 ''world'', exCaption 6000 ''hello'']
      [\<lparr>speaker = ''A'', text = ''hello'', timestamp = 2000, confidence = 0.95\<rparr>])) \<and>
   activeSessions (exWorld [Join ''M6'' exUrl (exJoin ''S6''),
      CaptionTimer ''M6'' (Some [exCaption 11000 ''hello'']), AudioData ''M6'' 6000]) ''M6'' \<noteq> None \<and>
   fst (leaveMeeting ((exLeave 0)\<lparr>stopEnv := exStop (ApiSegments
            [\<lparr>wText = Some '' hi '', wStart = Some 2.5, wConfidence = None\<rparr>])\<rparr>) ''M6''
         (exWorld [Join ''M6'' exUrl (exJoin ''S6''),
            CaptionTimer ''M6'' (Some [exCaption 11000 ''hello'']), AudioData ''M6'' 6000])) =
     Some (LeaveOk
       \<lparr>lDuration = 6,
        lTranscript = ''[00:00:02] Speaker: hi'' @ [CHR 0x0A] @ ''[00:00:10] A: hello'',
        lTranscriptSegments =
          [\<lparr>speaker = ''Speaker'', text = ''hi'', timestamp = 2500, confidence = 0.9\<rparr>,
           \<lparr>speaker = ''A'', text = ''hello'', timestamp = 10000, confidence = 0.95\<rparr>],
        lVideoPath = None,
        lScreenshots = [''/srv/recordings/S6_screenshot_6000.png''],
        lFrameCount = 0\<rparr>) \<and>
   sorted [2500, 10000 :: int]"
proof -
  let ?segs = "[\<lparr>speaker = ''A'', text = ''hello'', timestamp = 2000, confidence = 0.95\<rparr>]"
  let ?cs = "[exCaption 4000 ''world'', exCaption 6000 ''hello'']"
  let ?w = "exWorld [Join ''M6'' exUrl (exJoin ''S6''),
      CaptionTimer ''M6'' (Some [exCaption 11000 ''hello'']), AudioData ''M6'' 6000]"
  let ?env = "(exLeave 0)\<lparr>stopEnv := exStop (ApiSegments
            [\<lparr>wText = Some '' hi '', wStart = Some 2.5, wConfidence = None\<rparr>])\<rparr>"
  let ?r = "\<lparr>lDuration = 6,
        lTranscript = ''[00:00:02] Speaker: hi'' @ [CHR 0x0A] @ ''[00:00:10] A: hello'',
        lTranscriptSegments =
          [\<lparr>speaker = ''Speaker'', text = ''hi'', timestamp = 2500, confidence = 0.9\<rparr>,
           \<lparr>speaker = ''A'', text = ''hello'', timestamp = 10000, confidence = 0.95\<rparr>],
        lVideoPath = None,
        lScreenshots = [''/srv/recordings/S6_screenshot_6000.png''],
        lFrameCount = 0\<rparr>"
  have h1: "sorted (map timestamp ?segs)"
    by simp
  have h2: "sorted (map fst ?cs)"
    by (simp add: exCaption_def)
  have h3: "\<forall>x\<in>set ?segs. \<forall>n\<in>set (map fst ?cs). timestamp x \<le> n - 1000"
    by (simp add: exCaption_def)
  have live: "activeSessions ?w ''M6'' \<noteq> None"
    by code_simp
  then have s: "activeSessions ?w ''M6'' = Some (the (activeSessions ?w ''M6''))"
    by simp
  have r: "fst (leaveMeeting ?env ''M6'' ?w) = Some (LeaveOk ?r)"
    by code_simp
  note inst = transcript_sorted_on_leave [where segs = ?segs and cs = ?cs and start = 1000
      and w = ?w and m = "''M6''" and env = ?env and r = ?r
      and s = "the (activeSessions ?w ''M6'')"]
  have a: "sorted (map timestamp (pushCaptions 1000 ?cs ?segs))"
    using inst h1 h2 h3 by blast
  have b: "sorted (map timestamp (lTranscriptSegments ?r))"
    using inst s r by blast
  then have b': "sorted [2500, 10000 :: int]"
    by simp
  show ?thesis
    using h1 h2 a live r b' by (simp only: simp_thms)
qed


subsection \<open>Frame counter\<close>

text \<open>
  C3 as stated: frame_count never decreases over the session's lifetime, and after a
  pause at 4 and a resume it never drops below 4. It fails: \<^verbatim>\<open>startRecording\<close> sets the
  counter to 0. After four frames and a pause the counter is 4; after the resume it is 0.
\<close>

theorem frame_count_reset_counterexample:
  "map_option frameCount
     (activeSessions
        (exWorld [Join ''M4'' exUrl (exJoin ''S4''),
                  FrameTimer ''M4'' (Some 10), FrameTimer ''M4'' (Some 10),
                  FrameTimer ''M4'' (Some 10), FrameTimer ''M4'' (Some 10),
                  Toggle ''M4'' (exStop NoClient)]) ''M4'') = Some 4 \<and>
   map_option frameCount
     (activeSessions
        (exWorld [Join ''M4'' exUrl (exJoin ''S4''),
                  FrameTimer ''M4'' (Some 10), FrameTimer ''M4'' (Some 10),
                  FrameTimer ''M4'' (Some 10), FrameTimer ''M4'' (Some 10),
                  Toggle ''M4'' (exStop NoClient), Toggle ''M4'' (exStop NoClient)]) ''M4'') = Some 0"
  by code_simp

text \<open>
  C3, amended: for every session and every engine event that does not start a
  recording of its meeting (a join for the same meeting id, or ToggleRecording while
  paused), the session's frame_count after the event is at least its value before; an
  event that starts a recording sets it to 0, so after a pause with frame_count = 4, the
  resume leaves frame_count = 0.
\<close>

theorem frame_count_monotone_until_restart:
  assumes "activeSessions w m = Some s"
  shows "(\<not> restarts m w e \<and> activeSessions (step e w) m = Some s' \<longrightarrow>
            frameCount s \<le> frameCount s') \<and>
         (\<not> isRecording s \<and> page s \<and> cdpSession s \<longrightarrow>
            map_option frameCount (activeSessions (step (Toggle m env) w) m) = Some 0)"
proof -
  have mono: "frameCount s \<le> frameCount s'"
    if nr: "\<not> restarts m w e" and s': "activeSessions (step e w) m = Some s'"
  proof (cases e)
    case (Join m' url jenv)
    with nr have "m \<noteq> m'" by (auto simp: restarts_def)
    with s' assms Join show ?thesis by (simp add: join_registry_other)
  next
    case (Leave m' lenv)
    with s' assms show ?thesis by (auto simp: leave_registry split: if_splits)
  next
    case (Toggle m' tenv)
    show ?thesis
    proof (cases "m' = m")
      case True
      with nr assms Toggle have "isRecording s" by (simp add: restarts_def)
      with s' assms Toggle True show ?thesis by (auto simp: toggle_self)
    next
      case False
      with s' assms Toggle show ?thesis by (simp add: toggle_registry_other)
    qed
  next
    case (Screenshot m' shot now)
    with s' assms show ?thesis
      by (cases "m' = m") (auto simp: screenshot_self screenshot_registry_other)
  next
    case (FrameTimer m' shot)
    with s' assms show ?thesis
      by (cases "m' = m")
         (auto simp: onSession_self onSession_registry_other frameCount_screencastTick
          split: if_splits)
  next
    case (CaptionTimer m' content)
    with s' assms show ?thesis
      by (cases "m' = m") (auto simp: onSession_self onSession_registry_other split: if_splits)
  next
    case (AudioData m' n)
    with s' assms show ?thesis
      by (cases "m' = m") (auto simp: onSession_self onSession_registry_other split: if_splits)
  qed
  have reset: "map_option frameCount (activeSessions (step (Toggle m env) w) m) = Some 0"
    if "\<not> isRecording s" "page s" "cdpSession s"
    using that assms by (simp add: toggle_self frameCount_startRecording)
  show ?thesis
    using mono reset by blast
qed

theorem frame_count_monotone_until_restart_witness:
  "activeSessions (exWorld [Join ''M4'' exUrl (exJoin ''S4''), FrameTimer ''M4'' (Some 10),
       FrameTimer ''M4'' (Some 10), Toggle ''M4'' (exStop NoClient)]) ''M4'' \<noteq> None \<and>
   \<not> restarts ''M4'' (exWorld [Join ''M4'' exUrl (exJoin ''S4''), FrameTimer ''M4'' (Some 10),
       FrameTimer ''M4'' (Some 10), Toggle ''M4'' (exStop NoClient)])
       (CaptionTimer ''M4'' (Some [exCaption 3000 ''hello''])) \<and>
   activeSessions (step (CaptionTimer ''M4'' (Some [exCaption 3000 ''hello'']))
      (exWorld [Join ''M4'' exUrl (exJoin ''S4''), FrameTimer ''M4'' (Some 10),
         FrameTimer ''M4'' (Some 10), Toggle ''M4'' (exStop NoClient)])) ''M4'' \<noteq> None \<and>
   frameCount (the (activeSessions (exWorld [Join ''M4'' exUrl (exJoin ''S4''),
       FrameTimer ''M4'' (Some 10), FrameTimer ''M4'' (Some 10),
       Toggle ''M4'' (exStop NoClient)]) ''M4'')) = 2 \<and>
   2 \<le> frameCount (the (activeSessions (step (CaptionTimer ''M4'' (Some [exCaption 3000 ''hello'']))
      (exWorld [Join ''M4'' exUrl (exJoin ''S4''), FrameTimer ''M4'' (Some 10),
         FrameTimer ''M4'' (Some 10), Toggle ''M4'' (exStop NoClient)])) ''M4'')) \<and>
   map_option frameCount (activeSessions (step (Toggle ''M4'' (exStop NoClient))
      (exWorld [Join ''M4'' exUrl (exJoin ''S4''), FrameTimer ''M4'' (Some 10),
         FrameTimer ''M4'' (Some 10), Toggle ''M4'' (exStop NoClient)])) ''M4'') = Some 0"
proof -
  let ?w = "exWorld [Join ''M4'' exUrl (exJoin ''S4''), FrameTimer ''M4'' (Some 10),
       FrameTimer ''M4'' (Some 10), Toggle ''M4'' (exStop NoClient)]"
  let ?e = "CaptionTimer ''M4'' (Some [exCaption 3000 ''hello''])"
  have live: "activeSessions ?w ''M4'' \<noteq> None"
    by code_simp
  have live': "activeSessions (step ?e ?w) ''M4'' \<noteq> None"
    by code_simp
  have nr: "\<not> restarts ''M4'' ?w ?e"
    by code_simp
  have paused: "\<not> isRecording (the (activeSessions ?w ''M4'')) \<and> page (the (activeSessions ?w ''M4'')) \<and>
                cdpSession (the (activeSessions ?w ''M4'')) \<and>
                frameCount (the (activeSessions ?w ''M4'')) = 2"
    by code_simp
  have s: "activeSessions ?w ''M4'' = Some (the (activeSessions ?w ''M4''))"
    using live by simp
  have s': "activeSessions (step ?e ?w) ''M4'' = Some (the (activeSessions (step ?e ?w) ''M4''))"
    using live' by simp
  note inst = frame_count_monotone_until_restart [OF s, where e = ?e
      and s' = "the (activeSessions (step ?e ?w) ''M4'')" and env = "exStop NoClient"]
  have a: "frameCount (the (activeSessions ?w ''M4'')) \<le>
           frameCount (the (activeSessions (step ?e ?w) ''M4''))"
    using inst nr s' by blast
  have b: "map_option frameCount (activeSessions (step (Toggle ''M4'' (exStop NoClient)) ?w) ''M4'') = Some 0"
    using inst paused by blast
  show ?thesis
    using live live' nr paused a b by (simp only: simp_thms)
qed

subsection \<open>Encoder runs\<close>

lemma encoderRuns_simps [simp]:
  "encoderRuns (emit e h) = encoderRuns h @ (if isEncoderSpawn e then [e] else [])"
  "encoderRuns (writeFile p n h) = encoderRuns h"
  "encoderRuns (mkdirSync p h) = encoderRuns h"
  "encoderRuns (ffmpegOutput r p h) = encoderRuns h"
  by (simp_all add: encoderRuns_def)

lemma encoderRuns_convert [simp]:
  "encoderRuns (snd (convertFramesToVideo fd vp fps ap r h)) =
     encoderRuns h @ [SpawnFfmpeg ConvertFrames (convertArgs h fd vp fps ap)]"
  by (simp add: encoderRuns_def effects_convert)

lemma encoderRuns_stopRecording:
  "encoderRuns (snd (stopRecording env s h)) =
     encoderRuns h @
     (if isRecording s \<and> 0 < frameCount s
      then [SpawnFfmpeg ConvertFrames
              (convertArgs h (framesDir s) (videoFilePath s) 2 (Some (audioFilePath s)))]
      else [])"
  by (cases "isRecording s")
     (simp_all add: encoderRuns_def stopRecording_effects, simp add: stopRecording_def)

lemma encoderRuns_startRecording [simp]:
  "encoderRuns (snd (startRecording s h)) = encoderRuns h"
  by (simp add: startRecording_def startAudioRecording_def Let_def)

lemma encoderRuns_screenshotOf [simp]:
  "encoderRuns (snd (snd (screenshotOf shot now s h))) = encoderRuns h"
  by (simp add: screenshotOf_def Let_def split: option.splits)

lemma encoderRuns_captionTick [simp]:
  "encoderRuns (snd (captionTick content s h)) = encoderRuns h"
  by (simp add: captionTick_def split: option.splits)

lemma encoderRuns_screencastTick [simp]:
  "encoderRuns (snd (screencastTick shot s h)) = encoderRuns h"
  by (simp add: screencastTick_def split: option.splits)

lemma encoderRuns_onSession:
  assumes "\<And>s h. encoderRuns (snd (f s h)) = encoderRuns h"
  shows "encoderRuns (host (onSession m g f w)) = encoderRuns (host w)"
  by (simp add: onSession_def Let_def case_prod_beta assms split: option.splits)

lemma encoderRuns_joinCatch [simp]:
  "encoderRuns (host (snd (joinCatch msg m w))) = encoderRuns (host w)"
  by (simp add: joinCatch_def Let_def split: option.splits)

lemma encoderRuns_join:
  "encoderRuns (host (snd (joinMeeting env m url w))) = encoderRuns (host w)"
  by (simp add: joinMeeting_def Let_def case_prod_beta split: option.splits Attempt.splits)

lemma encoderRuns_takeScreenshot:
  "encoderRuns (host (snd (takeScreenshot shot now m w))) = encoderRuns (host w)"
  by (simp add: takeScreenshot_def Let_def case_prod_beta split: option.splits)

lemma encoderRuns_toggle:
  "activeSessions w m = Some s \<Longrightarrow>
   encoderRuns (host (snd (toggleRecording env m w))) =
     encoderRuns (host w) @
     (if isRecording s \<and> 0 < frameCount s
      then [SpawnFfmpeg ConvertFrames
              (convertArgs (host w) (framesDir s) (videoFilePath s) 2 (Some (audioFilePath s)))]
      else [])"
  by (simp add: toggleRecording_def Let_def case_prod_beta encoderRuns_stopRecording)

lemma screenshotOf_recording [simp]:
  "isRecording (fst (snd (screenshotOf shot now s h))) = isRecording s"
  by (simp add: screenshotOf_def Let_def split: option.splits)

lemma encoderRuns_leave_live:
  "activeSessions w m = Some s \<Longrightarrow>
   length (encoderRuns (host (snd (leaveMeeting env m w)))) =
     length (encoderRuns (host w)) + (if isRecording s \<and> 0 < frameCount s then 1 else 0)"
  by (cases "dbWrites env")
     (auto simp: leaveMeeting_def Let_def case_prod_beta encoderRuns_stopRecording
      split: option.splits)

text \<open>
  C4 as stated: the encoder is invoked at most once per session, only during Leave,
  never by ToggleRecording. It fails: \<^verbatim>\<open>stopRecording\<close> runs the encoder, and
  ToggleRecording calls it when the session is recording. After a join, one frame and a
  toggle the encoder has run without any Leave; after a resume, one more frame and
  Leave it has run twice for the one session.
\<close>

theorem encoder_on_toggle_counterexample:
  "encoderRuns (host (exWorld [Join ''M4'' exUrl (exJoin ''S4''), FrameTimer ''M4'' (Some 10),
                               Toggle ''M4'' (exStop NoClient)])) =
     [SpawnFfmpeg ConvertFrames
        [''-framerate'', ''2'', ''-i'', ''/srv/recordings/S4_frames/frame_%06d.png'',
         ''-c:v'', ''libx264'', ''-pix_fmt'', ''yuv420p'', ''-crf'', ''23'', ''-preset'', ''fast'',
         ''-y'', ''/srv/recordings/S4_video.mp4'']] \<and>
   length (encoderRuns (host (exWorld [Join ''M4'' exUrl (exJoin ''S4''), FrameTimer ''M4'' (Some 10),
                               Toggle ''M4'' (exStop NoClient), Toggle ''M4'' (exStop NoClient),
                               FrameTimer ''M4'' (Some 10), Leave ''M4'' (exLeave 0)]))) = 2"
  by code_simp

text \<open>
  C4, amended: for a live session the encoder is invoked only by \<^verbatim>\<open>stopRecording\<close>,
  which Leave and ToggleRecording (when recording is on) call: one invocation per call,
  exactly when the session is recording and has at least one frame, after the frame
  timer has been cleared and the audio recorder told to quit. Every operation other
  than Leave and ToggleRecording (Join, Screenshot, the timers), and ToggleRecording
  while paused, leaves the encoder alone.
\<close>

theorem encoder_only_in_stopRecording:
  "(isRecording s \<longrightarrow>
      effects (snd (stopRecording env s h)) =
        effects h @
        (if screencastInterval s \<noteq> None then [ClearScreencast] else []) @
        (if ffmpegProcess s \<noteq> None then [QuitFfmpeg] else []) @
        (if 0 < frameCount s
         then [SpawnFfmpeg ConvertFrames
                 (convertArgs h (framesDir s) (videoFilePath s) 2 (Some (audioFilePath s)))]
         else []) \<and>
      screencastInterval (fst (stopRecording env s h)) = None \<and>
      ffmpegProcess (fst (stopRecording env s h)) = None) \<and>
   (\<not> callsStop e \<longrightarrow> encoderRuns (host (step e w)) = encoderRuns (host w)) \<and>
   (activeSessions w m = Some s \<longrightarrow>
      encoderRuns (host (step (Toggle m env) w)) =
        encoderRuns (host w) @
        (if isRecording s \<and> 0 < frameCount s
         then [SpawnFfmpeg ConvertFrames
                 (convertArgs (host w) (framesDir s) (videoFilePath s) 2 (Some (audioFilePath s)))]
         else []) \<and>
      length (encoderRuns (host (step (Leave m lenv) w))) =
        length (encoderRuns (host w)) + (if isRecording s \<and> 0 < frameCount s then 1 else 0))"
proof -
  have other: "encoderRuns (host (step e w)) = encoderRuns (host w)" if "\<not> callsStop e"
    using that
    by (cases e)
       (simp_all add: encoderRuns_join encoderRuns_takeScreenshot encoderRuns_onSession)
  show ?thesis
    using other stopRecording_stopped [of s env h]
    by (simp add: stopRecording_effects encoderRuns_toggle encoderRuns_leave_live)
qed

theorem encoder_only_in_stopRecording_witness:
  "activeSessions (exWorld [Join ''M4'' exUrl (exJoin ''S4''), FrameTimer ''M4'' (Some 10)]) ''M4'' \<noteq> None \<and>
   isRecording (the (activeSessions (exWorld [Join ''M4'' exUrl (exJoin ''S4''),
      FrameTimer ''M4'' (Some 10)]) ''M4'')) \<and>
   frameCount (the (activeSessions (exWorld [Join ''M4'' exUrl (exJoin ''S4''),
      FrameTimer ''M4'' (Some 10)]) ''M4'')) = 1 \<and>
   \<not> callsStop (FrameTimer ''M4'' (Some 10)) \<and>
   encoderRuns (host (step (FrameTimer ''M4'' (Some 10))
      (exWorld [Join ''M4'' exUrl (exJoin ''S4''), FrameTimer ''M4'' (Some 10)]))) =
     encoderRuns (host (exWorld [Join ''M4'' exUrl (exJoin ''S4''), FrameTimer ''M4'' (Some 10)])) \<and>
   length (encoderRuns (host (step (Leave ''M4'' (exLeave 0))
      (exWorld [Join ''M4'' exUrl (exJoin ''S4''), FrameTimer ''M4'' (Some 10)])))) =
     length (encoderRuns (host (exWorld [Join ''M4'' exUrl (exJoin ''S4''),
        FrameTimer ''M4'' (Some 10)]))) + 1 \<and>
   ffmpegProcess (fst (stopRecording (exStop NoClient)
      (the (activeSessions (exWorld [Join ''M4'' exUrl (exJoin ''S4''),
         FrameTimer ''M4'' (Some 10)]) ''M4''))
      (host (exWorld [Join ''M4'' exUrl (exJoin ''S4''), FrameTimer ''M4'' (Some 10)])))) = None"
proof -
  let ?w = "exWorld [Join ''M4'' exUrl (exJoin ''S4''), FrameTimer ''M4'' (Some 10)]"
  let ?s = "the (activeSessions ?w ''M4'')"
  have live: "activeSessions ?w ''M4'' \<noteq> None"
    by code_simp
  have rec: "isRecording ?s \<and> frameCount ?s = 1"
    by code_simp
  have e: "\<not> callsStop (FrameTimer ''M4'' (Some 10))"
    by simp
  have s: "activeSessions ?w ''M4'' = Some ?s"
    using live by simp
  note inst = encoder_only_in_stopRecording [where s = ?s and w = ?w and m = "''M4''"
      and e = "FrameTimer ''M4'' (Some 10)" and env = "exStop NoClient" and h = "host ?w"
      and lenv = "exLeave 0"]
  have a: "encoderRuns (host (step (FrameTimer ''M4'' (Some 10)) ?w)) = encoderRuns (host ?w)"
    using inst e by blast
  have b: "length (encoderRuns (host (step (Leave ''M4'' (exLeave 0)) ?w))) =
           length (encoderRuns (host ?w)) + (if isRecording ?s \<and> 0 < frameCount ?s then 1 else 0)"
    using inst s by blast
  have c: "ffmpegProcess (fst (stopRecording (exStop NoClient) ?s (host ?w))) = None"
    using inst rec by blast
  show ?thesis
    using live rec e a b c by simp
qed

subsection \<open>Joining twice\<close>




end
